theory Spec2Isabelle
  imports Complex_Main
begin

section \<open>Data model\<close>

text \<open>
  The scraper of \<^verbatim>\<open>src/main.py\<close> works on polars data frames. A frame is modelled as
  the list of its rows, a row as a record of typed cells, and a null cell as \<open>None\<close>.
  The three percentage columns are cast to \<^verbatim>\<open>pl.Decimal\<close>; they are modelled as exact
  rationals, so the arithmetic and the comparisons below are exact (no rounding is
  modelled). Columns of a page that the code never names are kept in \<open>Other\<close>.
\<close>

type_synonym decimal = rat

record scraped_row =
  Material :: "string option"
  Manufacturer :: "string option"
  TML_Pct :: "decimal option"
  CVCM_Pct :: "decimal option"
  WVR_Pct :: "decimal option"
  Data_Ref :: "string option"
  Application :: "string option"
  Year :: "nat option"
  Other :: "(string \<times> string option) list"

record shaped_row = scraped_row +
  RML_Pct :: "decimal option"

record classified_row = shaped_row +
  SpaceX_Classification :: string

record final_row = classified_row +
  Raw_Application :: "string option"

section \<open>Null-aware column expressions\<close>

text \<open>
  polars expressions propagate null: arithmetic and comparisons with a null operand
  are null, \<^verbatim>\<open>&\<close> and \<^verbatim>\<open>|\<close> follow Kleene logic, \<^verbatim>\<open>fill_null\<close> replaces a null,
  and a \<^verbatim>\<open>when\<close> whose predicate is null does not fire.
\<close>

definition fill_null :: "'a option \<Rightarrow> 'a \<Rightarrow> 'a option" where
  "fill_null c v = (case c of None \<Rightarrow> Some v | Some x \<Rightarrow> Some x)"

definition sub_null :: "decimal option \<Rightarrow> decimal option \<Rightarrow> decimal option" where
  "sub_null a b = (case a of None \<Rightarrow> None
                   | Some x \<Rightarrow> (case b of None \<Rightarrow> None | Some y \<Rightarrow> Some (x - y)))"

definition le_null :: "decimal option \<Rightarrow> decimal \<Rightarrow> bool option" where
  "le_null a b = (case a of None \<Rightarrow> None | Some x \<Rightarrow> Some (x \<le> b))"

definition gt_null :: "decimal option \<Rightarrow> decimal \<Rightarrow> bool option" where
  "gt_null a b = (case a of None \<Rightarrow> None | Some x \<Rightarrow> Some (x > b))"

fun and_null :: "bool option \<Rightarrow> bool option \<Rightarrow> bool option" where
  "and_null (Some False) _ = Some False"
| "and_null _ (Some False) = Some False"
| "and_null (Some True) (Some True) = Some True"
| "and_null _ _ = None"

fun or_null :: "bool option \<Rightarrow> bool option \<Rightarrow> bool option" where
  "or_null (Some True) _ = Some True"
| "or_null _ (Some True) = Some True"
| "or_null (Some False) (Some False) = Some False"
| "or_null _ _ = None"

definition when_fires :: "bool option \<Rightarrow> bool" where
  "when_fires c = (c = Some True)"

section \<open>Row shaping: the derived column \<open>RML_Pct\<close>\<close>

text \<open>
  \<^verbatim>\<open>RML_Pct=pl.col("TML_Pct") - pl.col("WVR_Pct").fill_null(0.0)\<close>, the last
  \<^verbatim>\<open>with_columns\<close> of \<^verbatim>\<open>do_scrape\<close>.
\<close>

definition RML_Pct_expr :: "scraped_row \<Rightarrow> decimal option" where
  "RML_Pct_expr r = sub_null (TML_Pct r) (fill_null (WVR_Pct r) 0.0)"

definition with_RML_Pct :: "scraped_row \<Rightarrow> shaped_row" where
  "with_RML_Pct r = scraped_row.extend r (shaped_row.fields (RML_Pct_expr r))"

section \<open>Classifier\<close>

text \<open>
  The \<^verbatim>\<open>when/then/otherwise\<close> chain that computes \<^verbatim>\<open>SpaceX_Classification\<close> in
  \<^verbatim>\<open>scrape_nasa_outgassing\<close>, as a function of the two cells it reads.
\<close>

definition SpaceX_Classification_expr :: "decimal option \<Rightarrow> decimal option \<Rightarrow> string" where
  "SpaceX_Classification_expr rml cvcm =
     (if when_fires (and_null (le_null rml 1.0) (le_null cvcm 0.1)) then ''Pass''
      else if when_fires (and_null (le_null rml 3.0) (le_null cvcm 0.1))
        then ''Rationale Code A (up to 2 sq-in)''
      else if when_fires (or_null (gt_null rml 3.0) (gt_null cvcm 0.1))
        then ''Rationale Code B (up to 0.25 sq-in)''
      else ''Fail'')"

definition with_SpaceX_Classification :: "shaped_row \<Rightarrow> classified_row" where
  "with_SpaceX_Classification r =
     shaped_row.extend r
       (classified_row.fields (SpaceX_Classification_expr (RML_Pct r) (CVCM_Pct r)))"

text \<open>
  The decision list in the words of the specification: a comparison against a null
  field is false, the connectives are the two-valued ones, the first rule that matches
  wins.
\<close>

definition le_spec :: "decimal option \<Rightarrow> decimal \<Rightarrow> bool" where
  "le_spec a b = (case a of None \<Rightarrow> False | Some x \<Rightarrow> x \<le> b)"

definition gt_spec :: "decimal option \<Rightarrow> decimal \<Rightarrow> bool" where
  "gt_spec a b = (case a of None \<Rightarrow> False | Some x \<Rightarrow> x > b)"

definition decision_list_spec :: "decimal option \<Rightarrow> decimal option \<Rightarrow> string" where
  "decision_list_spec rml cvcm =
     (if le_spec rml 1.0 \<and> le_spec cvcm 0.1 then ''Pass''
      else if le_spec rml 3.0 \<and> le_spec cvcm 0.1 then ''Rationale Code A (up to 2 sq-in)''
      else if gt_spec rml 3.0 \<or> gt_spec cvcm 0.1 then ''Rationale Code B (up to 0.25 sq-in)''
      else ''Fail'')"

section \<open>Fetching one page: \<open>do_scrape\<close>\<close>

text \<open>
  The transport and the HTML table reader are the program's surroundings. The model
  takes them as parameters: \<open>http_get\<close> gives the response to the request for a page
  number (the only varying part of \<^verbatim>\<open>URL_TEMPLATE\<close>), and \<open>read_table\<close> stands for
  \<^verbatim>\<open>pd.read_html\<close> followed by the renames and casts, which either raise or give the
  typed rows of the page. Every call of \<open>do_scrape\<close> issues one request; the list of
  page numbers requested so far is threaded through as state.
\<close>

datatype error =
    HTTPError nat
  | ReadError
  | ConcatEmptyError
  | ColumnNotFoundError string

record response =
  status_code :: nat
  text_of :: string

definition raise_for_status :: "response \<Rightarrow> error + unit" where
  "raise_for_status response =
     (if 400 \<le> status_code response \<and> status_code response < 600
      then Inl (HTTPError (status_code response)) else Inr ())"

fun contains :: "string \<Rightarrow> string \<Rightarrow> bool" where
  "contains needle [] = (needle = [])"
| "contains needle (c # cs) = (take (length needle) (c # cs) = needle \<or> contains needle cs)"

definition do_scrape ::
  "(nat \<Rightarrow> response) \<Rightarrow> (string \<Rightarrow> error + scraped_row list) \<Rightarrow> nat \<Rightarrow> nat list
     \<Rightarrow> (error + shaped_row list option) \<times> nat list" where
  "do_scrape http_get read_table page_num requests =
     (let response = http_get page_num;
          requests' = requests @ [page_num]
      in case raise_for_status response of
           Inl e \<Rightarrow> (Inl e, requests')
         | Inr _ \<Rightarrow>
             if \<not> contains ''<table'' (text_of response) then (Inr None, requests')
             else (case read_table (text_of response) of
                     Inl e \<Rightarrow> (Inl e, requests')
                   | Inr df \<Rightarrow> (Inr (Some (map with_RML_Pct df)), requests')))"

section \<open>Pagination: the \<^verbatim>\<open>while True\<close> loop and the concatenation\<close>

text \<open>
  The loop has no bound on the page number, so it is a partial function: \<open>None\<close> is a
  run that never returns. \<^verbatim>\<open>pl.concat\<close> raises on an empty list of frames.
\<close>

partial_function (option) scrape_loop ::
  "(nat \<Rightarrow> response) \<Rightarrow> (string \<Rightarrow> error + scraped_row list) \<Rightarrow> nat
     \<Rightarrow> shaped_row list list \<Rightarrow> nat list
     \<Rightarrow> ((error + shaped_row list list) \<times> nat list) option" where
  "scrape_loop http_get read_table page_num df_list requests =
     (case do_scrape http_get read_table page_num requests of
        (Inl e, requests') \<Rightarrow> Some (Inl e, requests')
      | (Inr None, requests') \<Rightarrow> Some (Inr df_list, requests')
      | (Inr (Some df), requests') \<Rightarrow>
          scrape_loop http_get read_table (page_num + 1) (df_list @ [df]) requests')"

definition concat_vertical :: "'a list list \<Rightarrow> error + 'a list" where
  "concat_vertical df_list = (if df_list = [] then Inl ConcatEmptyError else Inr (concat df_list))"

definition fetch_all ::
  "(nat \<Rightarrow> response) \<Rightarrow> (string \<Rightarrow> error + scraped_row list)
     \<Rightarrow> ((error + shaped_row list) \<times> nat list) option" where
  "fetch_all http_get read_table =
     (case scrape_loop http_get read_table 1 [] [] of
        None \<Rightarrow> None
      | Some (Inl e, requests) \<Rightarrow> Some (Inl e, requests)
      | Some (Inr df_list, requests) \<Rightarrow> Some (concat_vertical df_list, requests))"

text \<open>What a page is, seen from the program: these predicates state the claims' hypotheses.\<close>

definition page_has_table ::
  "(nat \<Rightarrow> response) \<Rightarrow> (string \<Rightarrow> error + scraped_row list) \<Rightarrow> nat \<Rightarrow> bool" where
  "page_has_table http_get read_table p =
     (raise_for_status (http_get p) = Inr () \<and> contains ''<table'' (text_of (http_get p))
      \<and> (case read_table (text_of (http_get p)) of Inl _ \<Rightarrow> False | Inr _ \<Rightarrow> True))"

definition page_without_table :: "(nat \<Rightarrow> response) \<Rightarrow> nat \<Rightarrow> bool" where
  "page_without_table http_get p =
     (raise_for_status (http_get p) = Inr () \<and> \<not> contains ''<table'' (text_of (http_get p)))"

definition page_records ::
  "(nat \<Rightarrow> response) \<Rightarrow> (string \<Rightarrow> error + scraped_row list) \<Rightarrow> nat \<Rightarrow> shaped_row list" where
  "page_records http_get read_table p =
     (case read_table (text_of (http_get p)) of Inl _ \<Rightarrow> [] | Inr df \<Rightarrow> map with_RML_Pct df)"

section \<open>Deduplication: \<^verbatim>\<open>df.unique(maintain_order=True)\<close>\<close>

text \<open>
  With \<^verbatim>\<open>maintain_order=True\<close> polars groups the rows in order of first appearance and
  keeps the first row of each group; two rows are in one group when all their cells are
  equal (null equal to null).
\<close>

fun unique_from :: "'a list \<Rightarrow> 'a list \<Rightarrow> 'a list" where
  "unique_from seen [] = []"
| "unique_from seen (x # xs) =
     (if x \<in> set seen then unique_from seen xs else x # unique_from (seen @ [x]) xs)"

definition unique :: "'a list \<Rightarrow> 'a list" where
  "unique df = unique_from [] df"

section \<open>Column order\<close>








section \<open>Characters and the string operations of polars\<close>

text \<open>
  Strings are lists of characters; the model covers ASCII text, which is what the
  classes below decide. \<^verbatim>\<open>str.to_titlecase\<close> upper-cases the first letter of every word
  and lower-cases the rest, where every non-alphanumeric character ends a word.
  \<^verbatim>\<open>str.strip_chars()\<close> removes leading and trailing whitespace, \<^verbatim>\<open>replace\<close> with a
  dictionary replaces a value that is equal to a key, and \<^verbatim>\<open>replace_all\<close> with
  \<^verbatim>\<open>literal=True\<close> replaces the occurrences of a substring from left to right.
\<close>

definition upper_letters :: string where
  "upper_letters = ''ABCDEFGHIJKLMNOPQRSTUVWXYZ''"

definition lower_letters :: string where
  "lower_letters = ''abcdefghijklmnopqrstuvwxyz''"

definition is_upper :: "char \<Rightarrow> bool" where
  "is_upper c = (c \<in> set upper_letters)"

definition is_lower :: "char \<Rightarrow> bool" where
  "is_lower c = (c \<in> set lower_letters)"

definition is_digit :: "char \<Rightarrow> bool" where
  "is_digit c = (c \<in> set ''0123456789'')"

definition is_alphanumeric :: "char \<Rightarrow> bool" where
  "is_alphanumeric c = (is_upper c \<or> is_lower c \<or> is_digit c)"

definition is_word :: "char \<Rightarrow> bool" where
  "is_word c = (is_alphanumeric c \<or> c = CHR ''_'')"

definition is_whitespace :: "char \<Rightarrow> bool" where
  "is_whitespace c =
     (c \<in> set [CHR '' '', CHR 0x09, CHR 0x0A, CHR 0x0B, CHR 0x0C, CHR 0x0D])"

definition to_lowercase :: "char \<Rightarrow> char" where
  "to_lowercase c =
     (case map_of (zip upper_letters lower_letters) c of None \<Rightarrow> c | Some d \<Rightarrow> d)"

definition to_uppercase :: "char \<Rightarrow> char" where
  "to_uppercase c =
     (case map_of (zip lower_letters upper_letters) c of None \<Rightarrow> c | Some d \<Rightarrow> d)"

fun titlecase_from :: "bool \<Rightarrow> string \<Rightarrow> string" where
  "titlecase_from next_is_upper [] = []"
| "titlecase_from next_is_upper (c # cs) =
     (if next_is_upper then to_uppercase c else to_lowercase c)
       # titlecase_from (\<not> is_alphanumeric c) cs"

definition to_titlecase :: "string \<Rightarrow> string" where
  "to_titlecase s = titlecase_from True s"

definition strip_chars :: "string \<Rightarrow> string" where
  "strip_chars s = rev (dropWhile is_whitespace (rev (dropWhile is_whitespace s)))"

definition replace_dict :: "(string \<times> string) list \<Rightarrow> string \<Rightarrow> string" where
  "replace_dict d s = (case map_of d s of None \<Rightarrow> s | Some v \<Rightarrow> v)"

function replace_all_literal :: "string \<Rightarrow> string \<Rightarrow> string \<Rightarrow> string" where
  "replace_all_literal pat rep s =
     (if pat \<noteq> [] \<and> take (length pat) s = pat
      then rep @ replace_all_literal pat rep (drop (length pat) s)
      else (case s of [] \<Rightarrow> [] | c # cs \<Rightarrow> c # replace_all_literal pat rep cs))"
  by pat_completeness auto
termination
proof (relation "measure (\<lambda>(pat, rep, s). length s)")
  fix pat rep s :: string
  assume "pat \<noteq> [] \<and> take (length pat) s = pat"
  then have "s \<noteq> []" and "0 < length pat" by auto
  then show "((pat, rep, drop (length pat) s), (pat, rep, s))
      \<in> measure (\<lambda>(pat, rep, s). length s)"
    by simp
qed auto

section \<open>Regular expressions\<close>

text \<open>
  The patterns of the normalizer use literals, \<^verbatim>\<open>.\<close>, bracket classes, \<^verbatim>\<open>\w\<close>,
  \<^verbatim>\<open>\s\<close>, \<^verbatim>\<open>\b\<close>, alternation and the greedy \<^verbatim>\<open>?\<close>, \<^verbatim>\<open>*\<close>, \<^verbatim>\<open>+\<close>. A position
  in the subject is the character before it (none at the start) and the text after it.
  \<open>ends\<close> lists the positions where a match that starts at a position can end, in the
  order of preference of a backtracking matcher: the left alternative first, one more
  repetition first. The first element is the match the engine reports (leftmost-first).
  The flag is \<^verbatim>\<open>(?i)\<close>. Groups carry no meaning here, since no replacement refers to
  one. Repetition is only applied to single characters in the patterns below, so an
  iteration always consumes a character and the length of the text bounds their number.
\<close>

datatype regex =
    Eps
  | Lit char
  | Dot
  | OneOf "char list"
  | WordChar
  | Space
  | WordBoundary
  | Seq regex regex
  | Alt regex regex
  | Opt regex
  | Star regex
  | Plus regex

type_synonym pos = "char option \<times> string"

definition step :: "(char \<Rightarrow> bool) \<Rightarrow> pos \<Rightarrow> pos list" where
  "step ok p = (case snd p of [] \<Rightarrow> [] | c # cs \<Rightarrow> if ok c then [(Some c, cs)] else [])"

definition same_char :: "bool \<Rightarrow> char \<Rightarrow> char \<Rightarrow> bool" where
  "same_char ci c d = (if ci then to_lowercase c = to_lowercase d else c = d)"

definition word_before :: "pos \<Rightarrow> bool" where
  "word_before p = (case fst p of None \<Rightarrow> False | Some c \<Rightarrow> is_word c)"

definition word_after :: "pos \<Rightarrow> bool" where
  "word_after p = (case snd p of [] \<Rightarrow> False | c # _ \<Rightarrow> is_word c)"

fun star :: "(pos \<Rightarrow> pos list) \<Rightarrow> nat \<Rightarrow> pos \<Rightarrow> pos list" where
  "star f 0 p = [p]"
| "star f (Suc n) p = concat (map (star f n) (f p)) @ [p]"

primrec ends :: "bool \<Rightarrow> regex \<Rightarrow> pos \<Rightarrow> pos list" where
  "ends ci Eps p = [p]"
| "ends ci (Lit c) p = step (same_char ci c) p"
| "ends ci Dot p = step (\<lambda>d. d \<noteq> CHR 0x0A) p"
| "ends ci (OneOf cs) p = step (\<lambda>d. list_ex (\<lambda>c. same_char ci c d) cs) p"
| "ends ci WordChar p = step is_word p"
| "ends ci Space p = step is_whitespace p"
| "ends ci WordBoundary p = (if word_before p \<noteq> word_after p then [p] else [])"
| "ends ci (Seq r s) p = concat (map (ends ci s) (ends ci r p))"
| "ends ci (Alt r s) p = ends ci r p @ ends ci s p"
| "ends ci (Opt r) p = ends ci r p @ [p]"
| "ends ci (Star r) p = star (ends ci r) (length (snd p)) p"
| "ends ci (Plus r) p = concat (map (star (ends ci r) (length (snd p))) (ends ci r p))"

definition first_match :: "bool \<Rightarrow> regex \<Rightarrow> pos \<Rightarrow> pos option" where
  "first_match ci r p = (case ends ci r p of [] \<Rightarrow> None | q # _ \<Rightarrow> Some q)"

text \<open>
  \<^verbatim>\<open>replace_all\<close> scans from the left; at a match it emits the replacement and goes on
  after the match, otherwise it copies one character. (A match of length zero emits the
  replacement and copies one character; no pattern below matches the empty string.)
\<close>

function replace_from :: "bool \<Rightarrow> regex \<Rightarrow> string \<Rightarrow> char option \<Rightarrow> string \<Rightarrow> string" where
  "replace_from ci r rep prev s =
     (case first_match ci r (prev, s) of
        None \<Rightarrow> (case s of [] \<Rightarrow> [] | c # cs \<Rightarrow> c # replace_from ci r rep (Some c) cs)
      | Some (prev', rest) \<Rightarrow>
          if length rest < length s then rep @ replace_from ci r rep prev' rest
          else rep @ (case s of [] \<Rightarrow> [] | c # cs \<Rightarrow> c # replace_from ci r rep (Some c) cs))"
  by pat_completeness auto
termination
  by (relation "measure (\<lambda>(ci, r, rep, prev, s). length s)") auto

declare replace_from.simps [simp del]

declare replace_all_literal.simps [simp del]

definition replace_all :: "bool \<Rightarrow> regex \<Rightarrow> string \<Rightarrow> string \<Rightarrow> string" where
  "replace_all ci r rep s = replace_from ci r rep None s"

definition lits :: "string \<Rightarrow> regex" where
  "lits s = foldr (\<lambda>c r. Seq (Lit c) r) s Eps"

definition seqs :: "regex list \<Rightarrow> regex" where
  "seqs rs = foldr Seq rs Eps"

definition whole_word :: "regex \<Rightarrow> regex" where
  "whole_word r = Seq WordBoundary (Seq r WordBoundary)"

section \<open>Normalization of the \<open>Application\<close> column\<close>

definition acronyms :: "string list" where
  "acronyms = [''RF'', ''RFI'', ''EMC'', ''EMI'', ''ESD'', ''UV'', ''DVD'', ''IC'', ''ID'',
     ''PC'', ''PCB'', ''LED'', ''LCD'', ''TC'', ''LRO'', ''PCB'']"

text \<open>The loop \<^verbatim>\<open>for acronym in acronyms\<close>, pattern \<^verbatim>\<open>(?i)\b{acronym}\b\<close>.\<close>

definition uppercase_acronyms :: "string \<Rightarrow> string" where
  "uppercase_acronyms s =
     foldl (\<lambda>t acronym. replace_all True (whole_word (lits acronym)) acronym t) s acronyms"

text \<open>
  The regular-expression replacements of the chain, from \<^verbatim>\<open>(?i)\b(Adh)\b\<close> to
  \<^verbatim>\<open>(?i)\bfor\b\<close>, in the order of the source; the flag says whether the pattern
  starts with \<^verbatim>\<open>(?i)\<close>.
\<close>

definition regex_rules :: "(bool \<times> regex \<times> string) list" where
  "regex_rules =
    [(True, whole_word (lits ''Adh''), ''Adhesive''),
     (True, whole_word (lits ''Tpe''), ''Tape''),
     (True, whole_word (seqs [lits ''Anti'', Opt Dot, lits ''static'']), ''Antistatic''),
     (True, whole_word (lits ''Conf''), ''Conformal''),
     (True, whole_word (lits ''Cond''), ''Conductive''),
     (True, whole_word (lits ''Cpnd''), ''Compound''),
     (True, whole_word (lits ''Cmpd''), ''Compound''),
     (True, whole_word (lits ''Elec''), ''Electrical''),
     (True, whole_word (seqs [lits ''electrical'', Dot, lits ''conductive'']),
        ''Electrically-Conductive''),
     (True, whole_word (lits ''blk''), ''Black''),
     (True, whole_word (lits ''unk''), ''Unknown''),
     (True, whole_word (lits ''vib''), ''Vibration''),
     (True, whole_word (lits ''opt''), ''Optical''),
     (True, whole_word (seqs [lits ''ther'', Opt (Lit CHR ''m'')]), ''Thermal''),
     (True, whole_word (seqs [lits ''therm'', Star WordChar, Dot, lits ''conductive'']),
        ''Thermally-Conductive''),
     (True, whole_word (lits ''lube''), ''Lubricant''),
     (True, seqs [WordBoundary, Alt (lits ''matl'') (lits ''mtl''), Opt (Lit CHR ''s''),
                  Opt (Lit CHR ''.''), WordBoundary], ''Material''),
     (True, whole_word (lits ''maerials''), ''Materials''),
     (True, whole_word (lits ''coatint''), ''Coating''),
     (True, whole_word (seqs [lits ''Wra'', Plus (Lit CHR ''p''), Lit CHR ''i'', OneOf ''nm'',
                              Lit CHR ''g'']), ''Wrapping''),
     (False, Plus Space, '' ''),
     (False, seqs [Lit CHR ''3'', Opt Dot, OneOf ''Dd''], ''3D''),
     (True, whole_word (seqs [OneOf ''0O'', Opt Dot, lits ''ring'']), ''O-Ring''),
     (True, whole_word (lits ''and''), ''and''),
     (True, whole_word (lits ''for''), ''for'')]"

definition apply_rule :: "string \<Rightarrow> bool \<times> regex \<times> string \<Rightarrow> string" where
  "apply_rule s rule = (case rule of (ci, r, rep) \<Rightarrow> replace_all ci r rep s)"

definition residual_corrections :: "(string \<times> string) list" where
  "residual_corrections =
    [(''2 Side Tape'', ''Tape, Double-Sided''),
     (''2 Sided Tape'', ''Tape, Double-Sided''),
     (''Tape 2 Side'', ''Tape, Double-Sided''),
     (''Tape 2 Sided'', ''Tape, Double-Sided''),
     (''Capicator'', ''Capacitor''),
     (''Electrical Comp'', ''Electrical Component''),
     (''Electrical Components'', ''Electrical Component''),
     (''PC Board'', ''PCB'')]"

text \<open>The second \<^verbatim>\<open>with_columns\<close> on \<^verbatim>\<open>Application\<close>: the chain from \<^verbatim>\<open>&\<close> to the dictionary.\<close>

definition ampersand_step :: "string \<Rightarrow> string" where
  "ampersand_step s = replace_all_literal ''&'' '' and '' s"

definition remove_periods :: "string \<Rightarrow> string" where
  "remove_periods s = replace_all_literal ''.'' [] s"

definition Application_chain :: "string \<Rightarrow> string" where
  "Application_chain s =
     replace_dict residual_corrections
       (strip_chars
         (replace_all False (Plus Space) '' ''
           (remove_periods
             (foldl apply_rule (ampersand_step s) regex_rules))))"

text \<open>The whole sequence applied to one value of the column.\<close>

definition normalize :: "string \<Rightarrow> string" where
  "normalize s = Application_chain (uppercase_acronyms (to_titlecase s))"

text \<open>
  On rows. All expressions of one \<^verbatim>\<open>with_columns\<close> read the frame as it was before the
  call, so \<^verbatim>\<open>Raw_Application=pl.col("Application")\<close> reads the column that the
  title-casing in the same call has not yet replaced. String operations keep null.
\<close>

definition titlecase_and_snapshot :: "classified_row \<Rightarrow> final_row" where
  "titlecase_and_snapshot r =
     classified_row.extend
       (r\<lparr>Application := map_option to_titlecase (Application r)\<rparr>)
       (final_row.fields (Application r))"

definition map_Application :: "(string \<Rightarrow> string) \<Rightarrow> final_row \<Rightarrow> final_row" where
  "map_Application f r = r\<lparr>Application := map_option f (Application r)\<rparr>"

definition clean_Application :: "classified_row \<Rightarrow> final_row" where
  "clean_Application r =
     map_Application Application_chain
       (map_Application uppercase_acronyms (titlecase_and_snapshot r))"

section \<open>The run: \<open>scrape_nasa_outgassing\<close> and \<open>main\<close>\<close>

definition scrape_nasa_outgassing ::
  "(nat \<Rightarrow> response) \<Rightarrow> (string \<Rightarrow> error + scraped_row list)
     \<Rightarrow> ((error + final_row list) \<times> nat list) option" where
  "scrape_nasa_outgassing http_get read_table =
     (case fetch_all http_get read_table of
        None \<Rightarrow> None
      | Some (Inl e, requests) \<Rightarrow> Some (Inl e, requests)
      | Some (Inr df, requests) \<Rightarrow>
          Some (Inr (map clean_Application (map with_SpaceX_Classification (unique df))),
                requests))"

text \<open>
  The output folder holds the three artifacts; a file that was never written is
  \<open>None\<close>. The writers are sinks: a write stores the frame.
\<close>

record output_folder =
  nasa_outgassing_csv :: "final_row list option"
  nasa_outgassing_pq :: "final_row list option"
  nasa_outgassing_xlsx :: "final_row list option"

definition main ::
  "(nat \<Rightarrow> response) \<Rightarrow> (string \<Rightarrow> error + scraped_row list) \<Rightarrow> output_folder
     \<Rightarrow> ((error + unit) \<times> nat list \<times> output_folder) option" where
  "main http_get read_table out =
     (case scrape_nasa_outgassing http_get read_table of
        None \<Rightarrow> None
      | Some (Inl e, requests) \<Rightarrow> Some (Inl e, requests, out)
      | Some (Inr df, requests) \<Rightarrow>
          Some (Inr (), requests,
                out\<lparr>nasa_outgassing_csv := Some df, nasa_outgassing_pq := Some df,
                    nasa_outgassing_xlsx := Some df\<rparr>))"

section \<open>Concrete inputs\<close>

definition sample_row :: scraped_row where
  "sample_row = \<lparr>Material = Some ''RTV 566'', Manufacturer = Some ''GEC'',
     TML_Pct = Some 1.5, CVCM_Pct = Some 0.02, WVR_Pct = Some 0.25,
     Data_Ref = Some ''GSC12345'', Application = Some ''adhesive'', Year = Some 1999,
     Other = []\<rparr>"

definition sample_row_no_WVR :: scraped_row where
  "sample_row_no_WVR = sample_row\<lparr>WVR_Pct := None\<rparr>"

definition sample_row_no_TML :: scraped_row where
  "sample_row_no_TML = sample_row\<lparr>TML_Pct := None\<rparr>"

definition table_page :: response where
  "table_page = \<lparr>status_code = 200, text_of = ''<html><table></table></html>''\<rparr>"

definition empty_page :: response where
  "empty_page = \<lparr>status_code = 200, text_of = ''<html></html>''\<rparr>"

definition unavailable_page :: response where
  "unavailable_page = \<lparr>status_code = 503, text_of = []\<rparr>"

definition three_page_site :: "nat \<Rightarrow> response" where
  "three_page_site p = (if p \<le> 3 then table_page else empty_page)"

definition empty_site :: "nat \<Rightarrow> response" where
  "empty_site p = empty_page"

definition failing_site :: "nat \<Rightarrow> response" where
  "failing_site p = (if p < 2 then table_page else unavailable_page)"

definition sample_reader :: "string \<Rightarrow> error + scraped_row list" where
  "sample_reader markup = Inr [sample_row, sample_row_no_WVR, sample_row_no_TML]"

definition sample_classified_row :: classified_row where
  "sample_classified_row = with_SpaceX_Classification (with_RML_Pct sample_row)"


definition empty_folder :: output_folder where
  "empty_folder = \<lparr>nasa_outgassing_csv = None, nasa_outgassing_pq = None,
     nasa_outgassing_xlsx = None\<rparr>"



section \<open>Properties of the classifier\<close>

lemma and_null_fires:
  "when_fires (and_null p q) = (p = Some True \<and> q = Some True)"
  by (cases "(p, q)" rule: and_null.cases) (auto simp: when_fires_def)

lemma or_null_fires:
  "when_fires (or_null p q) = (p = Some True \<or> q = Some True)"
  by (cases "(p, q)" rule: or_null.cases) (auto simp: when_fires_def)

lemma le_null_true: "(le_null a x = Some True) = le_spec a x"
  by (cases a) (simp_all add: le_null_def le_spec_def)

lemma gt_null_true: "(gt_null a x = Some True) = gt_spec a x"
  by (cases a) (simp_all add: gt_null_def gt_spec_def)

lemma classifier_refines_spec:
  "SpaceX_Classification_expr rml cvcm = decision_list_spec rml cvcm"
  unfolding SpaceX_Classification_expr_def decision_list_spec_def
  by (simp only: and_null_fires or_null_fires le_null_true gt_null_true)

text \<open>
  Claim C1. The classifier is a total function of the pair \<open>(RML_Pct, CVCM_Pct)\<close> and
  equals the first-match-wins decision list of the specification, in which a comparison
  against a null field does not match: rule 1 gives \<open>Pass\<close>, rule 2 gives Rationale
  Code A, rule 3 gives Rationale Code B, otherwise \<open>Fail\<close>. Two null fields give
  \<open>Fail\<close>; a null \<open>RML_Pct\<close> with \<open>CVCM_Pct > 0.1\<close> gives Rationale Code B; and
  \<open>(1.0, 0.1)\<close>, \<open>(2.5, 0.1)\<close>, \<open>(5.0, 0.05)\<close> give \<open>Pass\<close>, Code A and Code B.
\<close>

theorem classifier_decision_list:
  "SpaceX_Classification_expr rml cvcm = decision_list_spec rml cvcm
   \<and> SpaceX_Classification_expr None None = ''Fail''
   \<and> (0.1 < c \<longrightarrow>
        SpaceX_Classification_expr None (Some c) = ''Rationale Code B (up to 0.25 sq-in)'')
   \<and> SpaceX_Classification_expr (Some 1.0) (Some 0.1) = ''Pass''
   \<and> SpaceX_Classification_expr (Some 2.5) (Some 0.1) = ''Rationale Code A (up to 2 sq-in)''
   \<and> SpaceX_Classification_expr (Some 5.0) (Some 0.05)
       = ''Rationale Code B (up to 0.25 sq-in)''"
  by (simp add: classifier_refines_spec decision_list_spec_def le_spec_def gt_spec_def)

theorem classifier_decision_list_witness:
  "(0.1 :: rat) < 0.5
   \<and> SpaceX_Classification_expr None (Some 0.5) = ''Rationale Code B (up to 0.25 sq-in)''
   \<and> SpaceX_Classification_expr (Some 0.5) (Some 0.5) = decision_list_spec (Some 0.5) (Some 0.5)"
  using classifier_decision_list [of "Some 0.5" "Some 0.5" "0.5"] by simp

section \<open>Properties of row shaping\<close>

lemma with_RML_Pct_fields:
  "TML_Pct (with_RML_Pct r) = TML_Pct r"
  "WVR_Pct (with_RML_Pct r) = WVR_Pct r"
  "RML_Pct (with_RML_Pct r) = RML_Pct_expr r"
  by (simp_all add: with_RML_Pct_def scraped_row.defs shaped_row.defs)

lemma do_scrape_rows:
  assumes "do_scrape http_get read_table page_num requests = (Inr (Some df), requests')"
  shows "\<exists>rows. df = map with_RML_Pct rows"
  using assms
  by (auto simp: do_scrape_def Let_def split: sum.splits if_splits)

text \<open>
  Claim C3. In every row of a frame that \<open>do_scrape\<close> returns: when \<open>TML_Pct\<close> is
  not null, \<open>RML_Pct\<close> is \<open>TML_Pct - WVR_Pct\<close> if \<open>WVR_Pct\<close> is not null and
  \<open>TML_Pct\<close> if it is null; when \<open>TML_Pct\<close> is null, \<open>RML_Pct\<close> is null.
\<close>

theorem RML_Pct_of_shaped_row:
  assumes "do_scrape http_get read_table page_num requests = (Inr (Some df), requests')"
    and "row \<in> set df"
  shows "(\<forall>t w. TML_Pct row = Some t \<and> WVR_Pct row = Some w \<longrightarrow> RML_Pct row = Some (t - w))
       \<and> (\<forall>t. TML_Pct row = Some t \<and> WVR_Pct row = None \<longrightarrow> RML_Pct row = Some t)
       \<and> (TML_Pct row = None \<longrightarrow> RML_Pct row = None)"
proof -
  from do_scrape_rows [OF assms(1)] assms(2)
  obtain r where row: "row = with_RML_Pct r" by auto
  show ?thesis
    unfolding row with_RML_Pct_fields RML_Pct_expr_def
    by (auto simp: sub_null_def fill_null_def)
qed

lemma do_scrape_three_page_site:
  "do_scrape three_page_site sample_reader 1 []
     = (Inr (Some (map with_RML_Pct [sample_row, sample_row_no_WVR, sample_row_no_TML])), [1])"
  by (simp add: do_scrape_def three_page_site_def table_page_def sample_reader_def
      raise_for_status_def)

theorem RML_Pct_of_shaped_row_witness:
  "do_scrape three_page_site sample_reader 1 []
     = (Inr (Some (map with_RML_Pct [sample_row, sample_row_no_WVR, sample_row_no_TML])), [1])
   \<and> RML_Pct (with_RML_Pct sample_row) = Some 1.25
   \<and> RML_Pct (with_RML_Pct sample_row_no_WVR) = Some 1.5
   \<and> RML_Pct (with_RML_Pct sample_row_no_TML) = None"
proof -
  note d = do_scrape_three_page_site
  have a: "with_RML_Pct sample_row
      \<in> set (map with_RML_Pct [sample_row, sample_row_no_WVR, sample_row_no_TML])"
    and b: "with_RML_Pct sample_row_no_WVR
      \<in> set (map with_RML_Pct [sample_row, sample_row_no_WVR, sample_row_no_TML])"
    and c: "with_RML_Pct sample_row_no_TML
      \<in> set (map with_RML_Pct [sample_row, sample_row_no_WVR, sample_row_no_TML])"
    by simp_all
  have ta: "TML_Pct (with_RML_Pct sample_row) = Some 1.5"
    "WVR_Pct (with_RML_Pct sample_row) = Some 0.25"
    and tb: "TML_Pct (with_RML_Pct sample_row_no_WVR) = Some 1.5"
    "WVR_Pct (with_RML_Pct sample_row_no_WVR) = None"
    and tc: "TML_Pct (with_RML_Pct sample_row_no_TML) = None"
    by (simp_all add: with_RML_Pct_fields sample_row_def sample_row_no_WVR_def
        sample_row_no_TML_def)
  from RML_Pct_of_shaped_row [OF d a] ta
  have "RML_Pct (with_RML_Pct sample_row) = Some (1.5 - 0.25)" by blast
  moreover from RML_Pct_of_shaped_row [OF d b] tb
  have "RML_Pct (with_RML_Pct sample_row_no_WVR) = Some 1.5" by blast
  moreover from RML_Pct_of_shaped_row [OF d c] tc
  have "RML_Pct (with_RML_Pct sample_row_no_TML) = None" by blast
  ultimately show ?thesis using d by simp
qed

section \<open>Properties of deduplication\<close>

lemma unique_from_indices:
  "unique_from seen xs =
     map (\<lambda>i. xs ! i)
       (filter (\<lambda>i. xs ! i \<notin> set seen \<union> set (take i xs)) [0..<length xs])"
proof (induction xs arbitrary: seen)
  case Nil
  then show ?case by simp
next
  case (Cons x xs)
  have up: "[0..<length (x # xs)] = 0 # map Suc [0..<length xs]"
    by (simp add: upt_conv_Cons map_Suc_upt del: upt_Suc)
  show ?case
    unfolding up
    by (auto simp: Cons.IH filter_map comp_def intro!: arg_cong2[where f=map] filter_cong)
qed

lemma unique_from_distinct: "distinct (unique_from seen xs) \<and> set (unique_from seen xs) = set xs - set seen"
  by (induction xs arbitrary: seen) auto

text \<open>
  Claim C7. Deduplication keeps exactly the rows that are not equal (in every field) to
  an earlier row, that is the first occurrence of each distinct row, in their original
  relative order: the result lists the rows at the indices \<open>i\<close> whose row does not occur
  before \<open>i\<close>, in increasing order of \<open>i\<close>. No row occurs twice in the result and every
  row of the input occurs in it. For distinct rows \<open>A\<close> and \<open>B\<close>, \<open>[A, B, A]\<close> gives
  \<open>[A, B]\<close>.
\<close>

theorem unique_keeps_first_occurrences:
  "unique rows
     = map (\<lambda>i. rows ! i) (filter (\<lambda>i. rows ! i \<notin> set (take i rows)) [0..<length rows])
   \<and> distinct (unique rows) \<and> set (unique rows) = set rows
   \<and> (A \<noteq> B \<longrightarrow> unique [A, B, A] = [A, B])"
proof (intro conjI impI)
  show "unique rows
    = map (\<lambda>i. rows ! i) (filter (\<lambda>i. rows ! i \<notin> set (take i rows)) [0..<length rows])"
    unfolding unique_def unique_from_indices [of "[]" rows] by simp
  show "distinct (unique rows)" "set (unique rows) = set rows"
    by (simp_all add: unique_def unique_from_distinct)
  show "unique [A, B, A] = [A, B]" if "A \<noteq> B"
    using that by (simp add: unique_def)
qed

theorem unique_keeps_first_occurrences_witness:
  "(1::nat) \<noteq> 2 \<and> unique [1, 2, 1 :: nat] = [1, 2]
   \<and> unique [3, 3, 5, 3, 5, 7 :: nat]
       = map (\<lambda>i. [3, 3, 5, 3, 5, 7] ! i)
           (filter (\<lambda>i. [3, 3, 5, 3, 5, 7 :: nat] ! i \<notin> set (take i [3, 3, 5, 3, 5, 7]))
              [0..<length [3, 3, 5, 3, 5, 7 :: nat]])"
proof -
  have ne: "(1::nat) \<noteq> 2" by simp
  from unique_keeps_first_occurrences [of "[1, 2, 1 :: nat]" "1::nat" "2::nat"] ne
  have a: "unique [1, 2, 1 :: nat] = [1, 2]" by blast
  from unique_keeps_first_occurrences [of "[3, 3, 5, 3, 5, 7 :: nat]" "1::nat" "2::nat"]
  have b: "unique [3, 3, 5, 3, 5, 7 :: nat]
       = map (\<lambda>i. [3, 3, 5, 3, 5, 7] ! i)
           (filter (\<lambda>i. [3, 3, 5, 3, 5, 7 :: nat] ! i \<notin> set (take i [3, 3, 5, 3, 5, 7]))
              [0..<length [3, 3, 5, 3, 5, 7 :: nat]])"
    by blast
  from ne a b show ?thesis by blast
qed

section \<open>Properties of the column order\<close>










section \<open>Properties of pagination\<close>

lemma do_scrape_table:
  "page_has_table http_get read_table p \<Longrightarrow>
   do_scrape http_get read_table p requests
     = (Inr (Some (page_records http_get read_table p)), requests @ [p])"
  by (auto simp: page_has_table_def do_scrape_def page_records_def Let_def split: sum.splits)

lemma do_scrape_no_table:
  "page_without_table http_get p \<Longrightarrow>
   do_scrape http_get read_table p requests = (Inr None, requests @ [p])"
  by (auto simp: page_without_table_def do_scrape_def Let_def split: sum.splits)

lemma do_scrape_failure:
  "400 \<le> status_code (http_get p) \<and> status_code (http_get p) < 600 \<Longrightarrow>
   do_scrape http_get read_table p requests
     = (Inl (HTTPError (status_code (http_get p))), requests @ [p])"
  by (simp add: do_scrape_def raise_for_status_def Let_def)

lemma scrape_loop_table:
  "page_has_table http_get read_table p \<Longrightarrow>
   scrape_loop http_get read_table p df_list requests
     = scrape_loop http_get read_table (p + 1)
         (df_list @ [page_records http_get read_table p]) (requests @ [p])"
  by (subst scrape_loop.simps) (simp add: do_scrape_table)

lemma scrape_loop_no_table:
  "page_without_table http_get p \<Longrightarrow>
   scrape_loop http_get read_table p df_list requests = Some (Inr df_list, requests @ [p])"
  by (subst scrape_loop.simps) (simp add: do_scrape_no_table)

lemma scrape_loop_failure:
  "400 \<le> status_code (http_get p) \<and> status_code (http_get p) < 600 \<Longrightarrow>
   scrape_loop http_get read_table p df_list requests
     = Some (Inl (HTTPError (status_code (http_get p))), requests @ [p])"
  by (subst scrape_loop.simps) (simp add: do_scrape_failure)

lemma scrape_loop_pages:
  assumes "\<forall>p. page_num \<le> p \<and> p < m \<longrightarrow> page_has_table http_get read_table p"
    and "page_num \<le> m"
  shows "scrape_loop http_get read_table page_num df_list requests
     = scrape_loop http_get read_table m
         (df_list @ map (page_records http_get read_table) [page_num..<m])
         (requests @ [page_num..<m])"
  using assms
proof (induction "m - page_num" arbitrary: page_num df_list requests)
  case 0
  then show ?case by simp
next
  case (Suc k)
  then have lt: "page_num < m" by simp
  with Suc.prems have t: "page_has_table http_get read_table page_num" by simp
  have k: "k = m - (page_num + 1)" using Suc.hyps(2) by simp
  have rest: "\<forall>p. page_num + 1 \<le> p \<and> p < m \<longrightarrow> page_has_table http_get read_table p"
    using Suc.prems(1) by simp
  have le: "page_num + 1 \<le> m" using lt by simp
  have up: "[page_num..<m] = page_num # [page_num + 1..<m]"
    using lt by (simp add: upt_conv_Cons)
  show ?case
    unfolding scrape_loop_table [OF t] Suc.hyps(1) [OF k rest le] up by simp
qed




text \<open>
  Claim C6, as the code has it. When page 1 has no data table, the loop ends after that
  one request with an empty list of frames, and the concatenation of an empty list
  raises: \<open>fetch_all\<close> fails, it does not return an empty dataset.
\<close>

theorem fetch_all_first_page_without_table:
  assumes "page_without_table http_get 1"
  shows "fetch_all http_get read_table = Some (Inl ConcatEmptyError, [1])"
  using scrape_loop_no_table [OF assms, of read_table "[]" "[]"]
  by (simp add: fetch_all_def concat_vertical_def)

lemma empty_site_page: "page_without_table empty_site 1"
  by (simp add: page_without_table_def empty_site_def empty_page_def raise_for_status_def)

theorem fetch_all_first_page_without_table_witness:
  "page_without_table empty_site 1
   \<and> fetch_all empty_site sample_reader = Some (Inl ConcatEmptyError, [1])"
  using fetch_all_first_page_without_table [OF empty_site_page, of sample_reader]
    empty_site_page
  by simp

theorem fetch_all_empty_dataset_counterexample:
  "fetch_all empty_site sample_reader \<noteq> Some (Inr [], [1])"
proof -
  have "scrape_loop empty_site sample_reader 1 [] [] = Some (Inr [], [] @ [1])"
    by (rule scrape_loop_no_table [OF empty_site_page])
  then show ?thesis
    by (simp add: fetch_all_def concat_vertical_def)
qed

section \<open>Properties of the run\<close>

lemma fetch_all_failure:
  assumes "1 \<le> k"
    and "\<forall>p. 1 \<le> p \<and> p < k \<longrightarrow> page_has_table http_get read_table p"
    and "400 \<le> status_code (http_get k) \<and> status_code (http_get k) < 600"
  shows "fetch_all http_get read_table
     = Some (Inl (HTTPError (status_code (http_get k))), [1..<k + 1])"
proof -
  have "scrape_loop http_get read_table 1 [] []
      = scrape_loop http_get read_table k
          ([] @ map (page_records http_get read_table) [1..<k]) ([] @ [1..<k])"
    by (rule scrape_loop_pages [OF assms(2) assms(1)])
  also have "\<dots> = Some (Inl (HTTPError (status_code (http_get k))), ([] @ [1..<k]) @ [k])"
    by (rule scrape_loop_failure [of http_get k, OF assms(3)])
  finally have loop: "scrape_loop http_get read_table 1 [] []
      = Some (Inl (HTTPError (status_code (http_get k))), [1..<k] @ [k])"
    by simp
  have up: "[1..<k + 1] = [1..<k] @ [k]"
    using assms(1) by simp
  show ?thesis
    unfolding fetch_all_def loop up by simp
qed

text \<open>
  Claim C9. When the fetch of page \<open>k\<close> is the first to return a non-success status (the
  pages before it have a table, so the loop reaches \<open>k\<close>), the run ends with that
  transport error; the requests issued are the pages \<open>1..k\<close>, each once, so page \<open>k\<close>
  is not retried and no later page is requested; and the output folder is as it was:
  none of the three artifacts is written.
\<close>

theorem main_transport_fault_aborts:
  assumes "1 \<le> k"
    and "\<forall>p. 1 \<le> p \<and> p < k \<longrightarrow> page_has_table http_get read_table p"
    and "400 \<le> status_code (http_get k) \<and> status_code (http_get k) < 600"
  shows "main http_get read_table out
     = Some (Inl (HTTPError (status_code (http_get k))), [1..<k + 1], out)"
  by (simp add: main_def scrape_nasa_outgassing_def fetch_all_failure [OF assms])

lemma failing_site_pages:
  "\<forall>p. 1 \<le> p \<and> p < 2 \<longrightarrow> page_has_table failing_site sample_reader p"
  "400 \<le> status_code (failing_site 2) \<and> status_code (failing_site 2) < 600"
  by (simp_all add: page_has_table_def failing_site_def table_page_def unavailable_page_def
      sample_reader_def raise_for_status_def)

theorem main_transport_fault_aborts_witness:
  "main failing_site sample_reader empty_folder
     = Some (Inl (HTTPError 503), [1, 2], empty_folder)"
proof -
  have "(1::nat) \<le> 2" by simp
  from main_transport_fault_aborts [OF this failing_site_pages, of empty_folder]
  have run: "main failing_site sample_reader empty_folder
      = Some (Inl (HTTPError (status_code (failing_site 2))), [1..<2 + 1], empty_folder)" .
  have code: "status_code (failing_site 2) = 503"
    by (simp add: failing_site_def unavailable_page_def)
  have up: "[1..<2 + 1] = [1, 2::nat]"
    by (simp add: upt_conv_Cons)
  show ?thesis using run unfolding code up .
qed

section \<open>Properties of the replacement operations\<close>















section \<open>Properties of the normalization of \<open>Application\<close>\<close>


lemma Application_sample_classified_row:
  "Application sample_classified_row = Some ''adhesive''"
  by (simp add: sample_classified_row_def with_SpaceX_Classification_def with_RML_Pct_def
      sample_row_def shaped_row.defs scraped_row.defs classified_row.defs)


lemma to_titlecase_adhesive: "to_titlecase ''adhesive'' = ''Adhesive''"
  by code_simp


lemma normalize_333d: "normalize ''333d'' = ''33D''"
  by code_simp

lemma normalize_33D: "normalize ''33D'' = ''3D''"
  by code_simp

lemma normalize_an_d: "normalize ''an.d'' = ''AnD''"
  by code_simp

lemma normalize_AnD: "normalize ''AnD'' = ''and''"
  by code_simp

lemma normalize_2_SIDE_TAPE: "normalize ''2 SIDE TAPE'' = ''Tape, Double-Sided''"
  by code_simp

lemma normalize_Tape_Double_Sided: "normalize ''Tape, Double-Sided'' = ''Tape, Double-Sided''"
  by code_simp

lemma normalize_Thermal_Cond_Matl:
  "normalize ''Thermal Cond Matl'' = ''Thermally-Conductive Material''"
  by code_simp

lemma normalize_Thermally_Conductive_Material:
  "normalize ''Thermally-Conductive Material'' = ''Thermally-Conductive Material''"
  by code_simp

lemma normalize_PC_Board: "normalize ''PC Board'' = ''PCB''"
  by code_simp

lemma normalize_PCB: "normalize ''PCB'' = ''PCB''"
  by code_simp

text \<open>
  Claim C2, as the code has it. The full sequence is idempotent on the inputs of the
  specification's test list: \<open>2 SIDE TAPE\<close> gives \<open>Tape, Double-Sided\<close>,
  \<open>Thermal Cond Matl\<close> gives \<open>Thermally-Conductive Material\<close>, \<open>PC Board\<close> gives
  \<open>PCB\<close>, and each of these results is normalized to itself. It is not idempotent
  for every input, as the counterexample below shows.
\<close>

theorem normalize_idempotent_on_tested_inputs:
  "normalize (normalize ''2 SIDE TAPE'') = normalize ''2 SIDE TAPE''
   \<and> normalize ''2 SIDE TAPE'' = ''Tape, Double-Sided''
   \<and> normalize (normalize ''Thermal Cond Matl'') = normalize ''Thermal Cond Matl''
   \<and> normalize ''Thermal Cond Matl'' = ''Thermally-Conductive Material''
   \<and> normalize (normalize ''PC Board'') = normalize ''PC Board''
   \<and> normalize ''PC Board'' = ''PCB''"
  by (simp only: normalize_2_SIDE_TAPE normalize_Tape_Double_Sided
      normalize_Thermal_Cond_Matl normalize_Thermally_Conductive_Material
      normalize_PC_Board normalize_PCB simp_thms)

text \<open>
  The claim as stated fails. \<open>333d\<close> is normalized to \<open>33D\<close> (the pattern
  \<^verbatim>\<open>3.?[Dd]\<close> matches \<open>33d\<close> from the second character), and \<open>33D\<close> is normalized
  to \<open>3D\<close>. \<open>an.d\<close> is normalized to \<open>AnD\<close> (the periods are removed after the
  rule for \<open>and\<close> has run), and \<open>AnD\<close> is normalized to \<open>and\<close>.
\<close>

theorem normalize_idempotent_counterexample:
  "normalize (normalize ''333d'') \<noteq> normalize ''333d''
   \<and> normalize (normalize ''an.d'') \<noteq> normalize ''an.d''"
  by (simp only: normalize_333d normalize_33D normalize_an_d normalize_AnD) simp

text \<open>
  Claim C4, as the code has it. \<open>Raw_Application\<close> is the scraped \<open>Application\<close>
  value itself, unmodified: the snapshot is taken in the same \<^verbatim>\<open>with_columns\<close> call as
  the title-casing and reads the column as it was before that call.
\<close>

theorem Raw_Application_is_scraped_value:
  "Raw_Application (clean_Application r) = Application r"
  by (simp add: clean_Application_def map_Application_def titlecase_and_snapshot_def
      classified_row.defs final_row.defs)

text \<open>
  The claim as stated fails: for the scraped value \<open>adhesive\<close> the title-cased form is
  \<open>Adhesive\<close>, and \<open>Raw_Application\<close> is \<open>adhesive\<close>.
\<close>

theorem Raw_Application_titlecased_counterexample:
  "Raw_Application (clean_Application sample_classified_row) = Some ''adhesive''
   \<and> map_option to_titlecase (Application sample_classified_row) = Some ''Adhesive''
   \<and> Raw_Application (clean_Application sample_classified_row)
       \<noteq> map_option to_titlecase (Application sample_classified_row)"
proof -
  have raw: "Raw_Application (clean_Application sample_classified_row) = Some ''adhesive''"
    by (simp add: clean_Application_def map_Application_def titlecase_and_snapshot_def
        classified_row.defs final_row.defs Application_sample_classified_row)
  have tc: "map_option to_titlecase (Application sample_classified_row) = Some ''Adhesive''"
    by (simp add: Application_sample_classified_row to_titlecase_adhesive)
  show ?thesis unfolding raw tc by simp
qed



end
